theory Spec2Isabelle
  imports Main "HOL-Library.Word"
begin

unbundle bit_operations_syntax

section \<open>Data model of package selfupdate\<close>

text \<open>
  The embedding follows \<^verbatim>\<open>selfupdate/selfupdate.go\<close>. The sources hold a second copy of
  that file, without a name; it has the same \<^verbatim>\<open>readTime\<close>, \<^verbatim>\<open>writeTime\<close>, \<^verbatim>\<open>wantUpdate\<close>,
  \<^verbatim>\<open>fetchInfo\<close>, \<^verbatim>\<open>fetchBin\<close> and \<^verbatim>\<open>update\<close> up to the words of log entries and of
  wrapped errors, and another \<^verbatim>\<open>fetchAndApplyPatch\<close>, which is embedded apart.

  Byte slices are lists of 8-bit words, Go strings are HOL strings, a \<^verbatim>\<open>time.Time\<close> is the
  number of nanoseconds since the zero time \<^verbatim>\<open>time.Time{}\<close>, a \<^verbatim>\<open>time.Duration\<close> is a
  number of nanoseconds.
\<close>

type_synonym bytes = "8 word list"
type_synonym time = int
type_synonym duration = int

text \<open>
  Go error values. \<open>ErrHashMismatch\<close> is the package's sentinel; \<open>Wrapf\<close> and \<open>Errorf\<close> are
  the constructors of \<^verbatim>\<open>github.com/pkg/errors\<close>; \<open>External\<close> is an error made by a
  library or by the Requester; \<open>RecoveryErrorf\<close> is the \<^verbatim>\<open>fmt.Errorf\<close> of the two
  results of the installer. The comparison \<^verbatim>\<open>err == ErrHashMismatch\<close> of the source is
  identity of the error value, here equality with the constructor: a wrapped sentinel
  is a different value.
\<close>

datatype error =
    ErrHashMismatch
  | ErrNotExist
  | External string
  | Wrapf error string
  | Errorf string
  | RecoveryErrorf "error option" error

fun Cause :: "error \<Rightarrow> error" where
  "Cause (Wrapf e m) = Cause e"
| "Cause e = e"

definition os_IsNotExist :: "error \<Rightarrow> bool" where
  "os_IsNotExist err = (err = ErrNotExist)"

datatype level = DebugLevel | WarnLevel | ErrorLevel

datatype entry = Msg string | Err error | MsgWithError string error

text \<open>What a run does to the outside, in order.\<close>

datatype event =
    Log level entry
  | Fetch string
  | Patch
  | Install bytes
  | WriteFile string string

datatype file_state = Absent | Unreadable error | Content string

record info =
  Version :: string
  Sha256 :: bytes

text \<open>
  A Requester answers a URL with the pair \<^verbatim>\<open>(io.ReadCloser, error)\<close>; either component
  may be nil. The stream is its bytes.
\<close>

type_synonym requester = "string \<Rightarrow> bytes option \<times> error option"

record updater =
  CurrentVersion :: string
  ApiURL :: string
  CmdName :: string
  BinURL :: string
  DiffURL :: string
  Dir :: string
  ForceCheck :: bool
  Requester :: "requester option"
  Info :: info

text \<open>
  The world of a run. The first group of fields are the capabilities the package calls
  and does not define in \<^verbatim>\<open>selfupdate.go\<close>: operating system, path handling, clock, random
  generator, JSON, gzip, binarydist, go-update, and \<^verbatim>\<open>defaultHTTPRequester.Fetch\<close>, whose
  type is declared in another file. They are parameters: a theorem holds for whatever
  they are. \<open>clock\<close> gives the successive readings of \<^verbatim>\<open>time.Now()\<close>, \<open>rand_Int63n\<close> the
  successive results of \<^verbatim>\<open>rand.Int63n\<close>, \<open>write_fails\<close> says whether writing a path
  fails, with which error and leaving which file. The second group is the state the check
  schedule changes: the files, the number of clock readings and of random draws so far,
  and the trace of its events.
\<close>

record world =
  GOOS :: string
  GOARCH :: string
  osext_Executable :: "error + string"
  filepath_Dir :: "string \<Rightarrow> string"
  filepath_Join :: "string \<Rightarrow> string \<Rightarrow> string"
  os_Open :: "string \<Rightarrow> error + bytes"
  http_Fetch :: "string \<Rightarrow> error + bytes"
  json_Decode :: "bytes \<Rightarrow> info \<Rightarrow> error option \<times> info"
  binarydist_Patch :: "bytes \<Rightarrow> bytes \<Rightarrow> error + bytes"
  gzip_NewReader :: "bytes \<Rightarrow> error + bytes"
  io_Copy :: "bytes \<Rightarrow> error + bytes"
  update_FromStream :: "bytes \<Rightarrow> error option \<times> error option"
  time_Parse :: "string \<Rightarrow> error + time"
  time_Format :: "time \<Rightarrow> string"
  clock :: "nat \<Rightarrow> time"
  rand_Int63n :: "nat \<Rightarrow> int \<Rightarrow> int"
  write_fails :: "string \<Rightarrow> (error \<times> file_state) option"
  files :: "string \<Rightarrow> file_state"
  ticks :: nat
  draws :: nat
  trace :: "event list"

definition upcktimePath :: string where
  "upcktimePath = ''cktime''"

definition plat :: "world \<Rightarrow> string" where
  "plat w = GOOS w @ ''-'' @ GOARCH w"

definition Hour :: duration where
  "Hour = 3600 * 1000000000"

definition zeroTime :: time where
  "zeroTime = 0"

definition sha256_Size :: nat where
  "sha256_Size = 32"

section \<open>Library functions the package calls\<close>

subsection \<open>net/url: QueryEscape\<close>

text \<open>
  \<^verbatim>\<open>url.QueryEscape\<close> keeps letters, digits and \<^verbatim>\<open>- _ . ~\<close>, writes a space as
  \<^verbatim>\<open>+\<close> and every other byte as \<^verbatim>\<open>%\<close> and two upper-case hexadecimal digits.
\<close>

definition shouldEscape :: "char \<Rightarrow> bool" where
  "shouldEscape c =
     (let n = (of_char c :: nat) in
      \<not> ((97 \<le> n \<and> n \<le> 122) \<or> (65 \<le> n \<and> n \<le> 90) \<or> (48 \<le> n \<and> n \<le> 57)
         \<or> c = CHR ''-'' \<or> c = CHR ''_'' \<or> c = CHR ''.'' \<or> c = CHR ''~''))"

definition upperhex :: string where
  "upperhex = ''0123456789ABCDEF''"

definition escape_byte :: "char \<Rightarrow> string" where
  "escape_byte c =
     (if shouldEscape c then
        (if c = CHR '' '' then ''+''
         else [CHR ''%'', upperhex ! ((of_char c :: nat) div 16), upperhex ! ((of_char c :: nat) mod 16)])
      else [c])"

definition QueryEscape :: "string \<Rightarrow> string" where
  "QueryEscape s = concat (map escape_byte s)"

subsection \<open>crypto/sha256\<close>

text \<open>SHA-256 as in FIPS 180-4, on 32-bit words.\<close>

definition rotr :: "nat \<Rightarrow> 32 word \<Rightarrow> 32 word" where
  "rotr n x = (drop_bit n x) OR (push_bit (32 - n) x)"

definition Ch :: "32 word \<Rightarrow> 32 word \<Rightarrow> 32 word \<Rightarrow> 32 word" where
  "Ch x y z = (x AND y) XOR (NOT x AND z)"

definition Maj :: "32 word \<Rightarrow> 32 word \<Rightarrow> 32 word \<Rightarrow> 32 word" where
  "Maj x y z = (x AND y) XOR (x AND z) XOR (y AND z)"

definition bsig0 :: "32 word \<Rightarrow> 32 word" where
  "bsig0 x = rotr 2 x XOR rotr 13 x XOR rotr 22 x"

definition bsig1 :: "32 word \<Rightarrow> 32 word" where
  "bsig1 x = rotr 6 x XOR rotr 11 x XOR rotr 25 x"

definition ssig0 :: "32 word \<Rightarrow> 32 word" where
  "ssig0 x = rotr 7 x XOR rotr 18 x XOR drop_bit 3 x"

definition ssig1 :: "32 word \<Rightarrow> 32 word" where
  "ssig1 x = rotr 17 x XOR rotr 19 x XOR drop_bit 10 x"

definition K256 :: "32 word list" where
  "K256 = [
  1116352408, 1899447441, 3049323471, 3921009573, 961987163, 1508970993, 2453635748, 2870763221,
  3624381080, 310598401, 607225278, 1426881987, 1925078388, 2162078206, 2614888103, 3248222580,
  3835390401, 4022224774, 264347078, 604807628, 770255983, 1249150122, 1555081692, 1996064986,
  2554220882, 2821834349, 2952996808, 3210313671, 3336571891, 3584528711, 113926993, 338241895,
  666307205, 773529912, 1294757372, 1396182291, 1695183700, 1986661051, 2177026350, 2456956037,
  2730485921, 2820302411, 3259730800, 3345764771, 3516065817, 3600352804, 4094571909, 275423344,
  430227734, 506948616, 659060556, 883997877, 958139571, 1322822218, 1537002063, 1747873779,
  1955562222, 2024104815, 2227730452, 2361852424, 2428436474, 2756734187, 3204031479, 3329325298]"

definition H256 :: "32 word list" where
  "H256 = [1779033703, 3144134277, 1013904242, 2773480762,
           1359893119, 2600822924, 528734635, 1541459225]"

fun be32 :: "bytes \<Rightarrow> 32 word" where
  "be32 (a # b # c # d # _) =
     push_bit 24 (ucast a) OR push_bit 16 (ucast b) OR push_bit 8 (ucast c) OR ucast d"
| "be32 _ = 0"

fun words_of :: "nat \<Rightarrow> bytes \<Rightarrow> 32 word list" where
  "words_of 0 bs = []"
| "words_of (Suc n) bs = be32 bs # words_of n (drop 4 bs)"

fun schedule :: "nat \<Rightarrow> 32 word list \<Rightarrow> 32 word list" where
  "schedule 0 w = w"
| "schedule (Suc n) w =
     schedule n (w @ [ssig1 (w ! (length w - 2)) + w ! (length w - 7)
                      + ssig0 (w ! (length w - 15)) + w ! (length w - 16)])"

fun round256 :: "32 word list \<Rightarrow> 32 word \<times> 32 word \<Rightarrow> 32 word list" where
  "round256 [a, b, c, d, e, f, g, h] (k, w) =
     (let t1 = h + bsig1 e + Ch e f g + k + w;
          t2 = bsig0 a + Maj a b c
      in [t1 + t2, a, b, c, d + t1, e, f, g])"
| "round256 s _ = s"

definition block256 :: "32 word list \<Rightarrow> bytes \<Rightarrow> 32 word list" where
  "block256 hs blk =
     map2 (+) hs (foldl round256 hs (zip K256 (schedule 48 (words_of 16 blk))))"

definition bytes_of32 :: "32 word \<Rightarrow> bytes" where
  "bytes_of32 x = [ucast (drop_bit 24 x), ucast (drop_bit 16 x), ucast (drop_bit 8 x), ucast x]"

definition bytes_of64 :: "64 word \<Rightarrow> bytes" where
  "bytes_of64 x = map (\<lambda>i. ucast (drop_bit (8 * (7 - i)) x)) [0 ..< 8]"

definition pad256 :: "bytes \<Rightarrow> bytes" where
  "pad256 m = m @ [0x80] @ replicate ((119 - length m mod 64) mod 64) 0
                @ bytes_of64 (of_nat (8 * length m))"

fun blocks256 :: "nat \<Rightarrow> 32 word list \<Rightarrow> bytes \<Rightarrow> 32 word list" where
  "blocks256 0 hs bs = hs"
| "blocks256 (Suc n) hs bs = blocks256 n (block256 hs (take 64 bs)) (drop 64 bs)"

definition sha256_Sum :: "bytes \<Rightarrow> bytes" where
  "sha256_Sum m =
     (let p = pad256 m in concat (map bytes_of32 (blocks256 (length p div 64) H256 p)))"

subsection \<open>Log, clock, random generator, files\<close>

definition logf :: "level \<Rightarrow> entry \<Rightarrow> world \<Rightarrow> world" where
  "logf l e w = w\<lparr>trace := trace w @ [Log l e]\<rparr>"

definition time_Now :: "world \<Rightarrow> time \<times> world" where
  "time_Now w = (clock w (ticks w), w\<lparr>ticks := Suc (ticks w)\<rparr>)"

definition ioutil_ReadFile :: "string \<Rightarrow> world \<Rightarrow> error + string" where
  "ioutil_ReadFile path w =
     (case files w path of
        Absent \<Rightarrow> Inl ErrNotExist
      | Unreadable err \<Rightarrow> Inl err
      | Content p \<Rightarrow> Inr p)"

definition ioutil_WriteFile :: "string \<Rightarrow> string \<Rightarrow> world \<Rightarrow> error option \<times> world" where
  "ioutil_WriteFile path p w =
     (let w1 = w\<lparr>trace := trace w @ [WriteFile path p]\<rparr> in
      case write_fails w path of
        None \<Rightarrow> (None, w1\<lparr>files := (files w)(path := Content p)\<rparr>)
      | Some (err, left) \<Rightarrow> (Some err, w1\<lparr>files := (files w)(path := left)\<rparr>))"

section \<open>The package\<close>

subsection \<open>Check schedule\<close>

definition getExecRelativeDir :: "string \<Rightarrow> world \<Rightarrow> (error + string) \<times> world" where
  "getExecRelativeDir dir w =
     (case osext_Executable w of
        Inl err \<Rightarrow> (Inl (Wrapf err ''Couldn't get path to self executable''), w)
      | Inr filename \<Rightarrow>
          (let path = filepath_Join w (filepath_Dir w filename) dir
           in (Inr path, logf DebugLevel (Msg ''Directory to store selfupdate state'') w)))"

definition randDuration :: "duration \<Rightarrow> world \<Rightarrow> duration \<times> world" where
  "randDuration n w = (rand_Int63n w (draws w) n, w\<lparr>draws := Suc (draws w)\<rparr>)"

definition readTime :: "string \<Rightarrow> world \<Rightarrow> time \<times> world" where
  "readTime path w =
     (case ioutil_ReadFile path w of
        Inl err \<Rightarrow>
          (if os_IsNotExist err then (zeroTime, w)
           else (case time_Now w of (now, w1) \<Rightarrow> (now + 1000 * Hour, w1)))
      | Inr p \<Rightarrow>
          (case time_Parse w p of
             Inl err \<Rightarrow> (case time_Now w of (now, w1) \<Rightarrow> (now + 1000 * Hour, w1))
           | Inr t \<Rightarrow> (t, w)))"

definition writeTime :: "string \<Rightarrow> time \<Rightarrow> world \<Rightarrow> bool \<times> world" where
  "writeTime path t w =
     (case ioutil_WriteFile path (time_Format w t) w of (err, w1) \<Rightarrow> (err = None, w1))"

text \<open>
  \<^verbatim>\<open>readTime(path).After(time.Now())\<close>: the token is read first, the clock after it.
\<close>

definition tokenInFuture :: "string \<Rightarrow> world \<Rightarrow> bool \<times> world" where
  "tokenInFuture path w =
     (case readTime path w of (t, w1) \<Rightarrow>
        (case time_Now w1 of (now, w2) \<Rightarrow> (now < t, w2)))"

definition wantUpdate :: "updater \<Rightarrow> world \<Rightarrow> bool \<times> world" where
  "wantUpdate u w =
     (case getExecRelativeDir (Dir u @ upcktimePath) w of
        (Inl err, w1) \<Rightarrow> (False, logf ErrorLevel (Err err) w1)
      | (Inr path, w1) \<Rightarrow>
          (if CurrentVersion u = ''dev'' then (False, w1)
           else
             (case (if ForceCheck u then (False, w1) else tokenInFuture path w1) of
                (skip, w2) \<Rightarrow>
                  (if skip then (False, w2)
                   else
                     (case randDuration (24 * Hour) w2 of (r, w3) \<Rightarrow>
                        (case time_Now w3 of (now, w4) \<Rightarrow>
                           writeTime path (now + (24 * Hour + r)) w4))))))"

subsection \<open>Verifier\<close>

text \<open>
  The operations from here on read the world and change nothing in it that the model
  keeps: each returns its result together with the events it caused, in order.
\<close>

definition verifySha :: "bytes \<Rightarrow> bytes \<Rightarrow> bool \<times> event list" where
  "verifySha bin sha =
     (let computed = sha256_Sum bin;
          bytesEqual = (computed = sha)
      in (bytesEqual, if \<not> bytesEqual then [Log WarnLevel (Msg ''SHA mismatch'')] else []))"

subsection \<open>Fetching\<close>

definition fetch :: "updater \<Rightarrow> string \<Rightarrow> world \<Rightarrow> (error + bytes) \<times> event list" where
  "fetch u url w =
     (case Requester u of
        None \<Rightarrow> (http_Fetch w url, [Fetch url])
      | Some rq \<Rightarrow>
          (case rq url of
             (_, Some err) \<Rightarrow> (Inl err, [Fetch url])
           | (None, None) \<Rightarrow>
               (Inl (Errorf ''Fetch was expected to return non-nil ReadCloser''), [Fetch url])
           | (Some readCloser, None) \<Rightarrow> (Inr readCloser, [Fetch url])))"

text \<open>
  \<^verbatim>\<open>json.NewDecoder(r).Decode(&u.Info)\<close> writes into the field it is given, so the decoder
  takes the old value of \<open>Info\<close> and its result is stored whether it reports an error or not.
\<close>

definition infoUrl :: "updater \<Rightarrow> world \<Rightarrow> string" where
  "infoUrl u w = ApiURL u @ QueryEscape (CmdName u) @ ''/'' @ QueryEscape (plat w) @ ''.json''"

definition fetchInfo :: "updater \<Rightarrow> world \<Rightarrow> error option \<times> updater \<times> event list" where
  "fetchInfo u w =
     (case fetch u (infoUrl u w) w of
        (Inl err, ev) \<Rightarrow>
          (Some (Wrapf err (''Couldn't fetch `json` with information for update (url=''
                            @ infoUrl u w @ '')'')), u, ev)
      | (Inr r, ev) \<Rightarrow>
          (case json_Decode w r (Info u) of (derr, i) \<Rightarrow>
             (let u1 = u\<lparr>Info := i\<rparr> in
              case derr of
                Some err \<Rightarrow> (Some (Wrapf err ''Couldn't decode JSON (%!s(MISSING))''), u1, ev)
              | None \<Rightarrow>
                  (if length (Sha256 (Info u1)) \<noteq> sha256_Size
                   then (Some (Errorf ''Bad cmd hash in JSON info''), u1, ev)
                   else (None, u1, ev)))))"

definition patchUrl :: "updater \<Rightarrow> world \<Rightarrow> string" where
  "patchUrl u w =
     DiffURL u @ (QueryEscape (CmdName u) @ ''/'' @ QueryEscape (CurrentVersion u) @ ''/''
                  @ QueryEscape (Version (Info u)) @ ''/'' @ QueryEscape (plat w))"

definition fetchAndApplyPatch :: "updater \<Rightarrow> bytes \<Rightarrow> world \<Rightarrow> (error + bytes) \<times> event list" where
  "fetchAndApplyPatch u old w =
     (let ev0 = [Log DebugLevel (Msg ''Starting to fetch patch'')] in
      case fetch u (patchUrl u w) w of
        (Inl err, ev1) \<Rightarrow>
          (let err1 = Wrapf err ''Errored fetching path''
           in (Inl err1, ev0 @ ev1 @ [Log WarnLevel (Err err1)]))
      | (Inr r, ev1) \<Rightarrow>
          (case binarydist_Patch w old r of
             Inl err \<Rightarrow>
               (let err1 = Wrapf err (''Errored using binarydist to patch (url=''
                                      @ patchUrl u w @ '')'')
                in (Inl err1, ev0 @ ev1 @ [Patch, Log WarnLevel (Err err1)]))
           | Inr buf \<Rightarrow> (Inr buf, ev0 @ ev1 @ [Patch])))"

text \<open>
  The copy of the file that is kept without a name has another \<^verbatim>\<open>fetchAndApplyPatch\<close>: it
  formats the same four arguments with the three verbs of \<^verbatim>\<open>"%s/%s/%s"\<close>, so that
  \<^verbatim>\<open>fmt.Sprintf\<close> reports the platform as an extra argument instead of writing it as a
  segment; it logs once, without a warning on failure, and wraps both errors with the URL.
\<close>

definition patchUrl_part000 :: "updater \<Rightarrow> world \<Rightarrow> string" where
  "patchUrl_part000 u w =
     DiffURL u @ (QueryEscape (CmdName u) @ ''/'' @ QueryEscape (CurrentVersion u) @ ''/''
                  @ QueryEscape (Version (Info u))
                  @ ''%!(EXTRA string='' @ QueryEscape (plat w) @ '')'')"

definition fetchAndApplyPatch_part000 ::
    "updater \<Rightarrow> bytes \<Rightarrow> world \<Rightarrow> (error + bytes) \<times> event list" where
  "fetchAndApplyPatch_part000 u old w =
     (let ev0 = [Log DebugLevel (Msg ''Starting to fetch patch'')] in
      case fetch u (patchUrl_part000 u w) w of
        (Inl err, ev1) \<Rightarrow>
          (Inl (Wrapf err (''Errored fetching path (url='' @ patchUrl_part000 u w @ '')'')),
           ev0 @ ev1)
      | (Inr r, ev1) \<Rightarrow>
          (case binarydist_Patch w old r of
             Inl err \<Rightarrow>
               (Inl (Wrapf err (''Errored using binarydist to patch (url=''
                                @ patchUrl_part000 u w @ '')'')),
                ev0 @ ev1 @ [Patch])
           | Inr buf \<Rightarrow> (Inr buf, ev0 @ ev1 @ [Patch])))"

definition fetchAndVerifyPatch :: "updater \<Rightarrow> bytes \<Rightarrow> world \<Rightarrow> (error + bytes) \<times> event list" where
  "fetchAndVerifyPatch u old w =
     (case fetchAndApplyPatch u old w of
        (Inl err, ev) \<Rightarrow> (Inl (Wrapf err ''Couldn't fetch and apply patch''), ev)
      | (Inr bin, ev) \<Rightarrow>
          (case verifySha bin (Sha256 (Info u)) of (ok, ev1) \<Rightarrow>
             (if \<not> ok then (Inl ErrHashMismatch, ev @ ev1) else (Inr bin, ev @ ev1))))"

definition binUrl :: "updater \<Rightarrow> world \<Rightarrow> string" where
  "binUrl u w =
     BinURL u @ (QueryEscape (CmdName u) @ ''/'' @ QueryEscape (Version (Info u)) @ ''/''
                 @ QueryEscape (plat w) @ ''.gz'')"

definition fetchBin :: "updater \<Rightarrow> world \<Rightarrow> (error + bytes) \<times> event list" where
  "fetchBin u w =
     (let ev0 = [Log DebugLevel (Msg ''Starting to fetch full binary'')] in
      case fetch u (binUrl u w) w of
        (Inl err, ev1) \<Rightarrow>
          (let err1 = Wrapf err (''Failed to fetch full binary (url='' @ binUrl u w @ '')'')
           in (Inl err1, ev0 @ ev1 @ [Log WarnLevel (Err err1)]))
      | (Inr r, ev1) \<Rightarrow>
          (case gzip_NewReader w r of
             Inl err \<Rightarrow>
               (let err1 = Wrapf err ''Failed to create gzip reader''
                in (Inl err1, ev0 @ ev1 @ [Log WarnLevel (Err err1)]))
           | Inr gz \<Rightarrow>
               (case io_Copy w gz of
                  Inl err \<Rightarrow>
                    (let err1 = Wrapf err ''Failed to copy gzip content to buf''
                     in (Inl err1, ev0 @ ev1 @ [Log WarnLevel (Err err1)]))
                | Inr buf \<Rightarrow> (Inr buf, ev0 @ ev1))))"

definition fetchAndVerifyFullBin :: "updater \<Rightarrow> world \<Rightarrow> (error + bytes) \<times> event list" where
  "fetchAndVerifyFullBin u w =
     (case fetchBin u w of
        (Inl err, ev) \<Rightarrow> (Inl (Wrapf err ''Errored fetching full binary''), ev)
      | (Inr bin, ev) \<Rightarrow>
          (case verifySha bin (Sha256 (Info u)) of (verified, ev1) \<Rightarrow>
             (if \<not> verified then (Inl (Wrapf ErrHashMismatch ''Hash mismatch''), ev @ ev1)
              else (Inr bin, ev @ ev1))))"

subsection \<open>Orchestrator\<close>

text \<open>
  \<open>obtainBin\<close> is the part of \<^verbatim>\<open>update\<close> from the call of \<^verbatim>\<open>fetchAndVerifyPatch\<close> to the
  end of its \<^verbatim>\<open>if err != nil\<close> block; \<open>installBin\<close> is the part from \<^verbatim>\<open>up.FromStream\<close>
  on. The handle of the running executable is the bytes \<^verbatim>\<open>os.Open\<close> gives; closing it
  leaves no mark in the model.
\<close>

definition obtainBin :: "updater \<Rightarrow> bytes \<Rightarrow> world \<Rightarrow> (error + bytes) \<times> event list" where
  "obtainBin u old w =
     (case fetchAndVerifyPatch u old w of
        (Inr bin, ev) \<Rightarrow> (Inr bin, ev)
      | (Inl err, ev) \<Rightarrow>
          (let ev1 = (if err = ErrHashMismatch
                      then [Log DebugLevel (Msg ''Hash mismatch from patched binary'')]
                      else if DiffURL u \<noteq> []
                           then [Log DebugLevel (MsgWithError ''Patching binary'' err)]
                           else []) in
           case fetchAndVerifyFullBin u w of
             (Inl err2, ev2) \<Rightarrow>
               (Inl err2,
                ev @ ev1 @ ev2 @
                (if err2 = ErrHashMismatch
                 then [Log DebugLevel (Msg ''Hash mismatch from full binary'')]
                 else [Log DebugLevel (MsgWithError ''Fetching full binary'' err2)]))
           | (Inr bin, ev2) \<Rightarrow> (Inr bin, ev @ ev1 @ ev2)))"

definition installBin :: "bytes \<Rightarrow> world \<Rightarrow> error option \<times> event list" where
  "installBin bin w =
     (case update_FromStream w bin of
        (err, Some errRecover) \<Rightarrow> (Some (RecoveryErrorf err errRecover), [Install bin])
      | (Some err, None) \<Rightarrow> (Some err, [Install bin])
      | (None, None) \<Rightarrow> (None, [Install bin]))"

definition update :: "updater \<Rightarrow> world \<Rightarrow> error option \<times> updater \<times> event list" where
  "update u w =
     (case osext_Executable w of
        Inl err \<Rightarrow> (Some (Wrapf err ''Couldn't get path to executable (self)''), u, [])
      | Inr path \<Rightarrow>
          (case os_Open w path of
             Inl err \<Rightarrow> (Some (Wrapf err ''Couldn't open self executable''), u, [])
           | Inr old \<Rightarrow>
               (case fetchInfo u w of
                  (Some err, u1, ev) \<Rightarrow>
                    (Some (Wrapf err ''Couldn't properly fetch JSON information for updates''),
                     u1, ev)
                | (None, u1, ev) \<Rightarrow>
                    (if Version (Info u1) = CurrentVersion u1
                     then (None, u1, ev @ [Log DebugLevel (Msg ''Already at latest version :)'')])
                     else
                       (case obtainBin u1 old w of
                          (Inl err, ev1) \<Rightarrow> (Some err, u1, ev @ ev1)
                        | (Inr bin, ev1) \<Rightarrow>
                            (case installBin bin w of (r, ev2) \<Rightarrow> (r, u1, ev @ ev1 @ ev2)))))))"

subsection \<open>What a trace shows\<close>

definition fetches :: "event list \<Rightarrow> string list" where
  "fetches es = concat (map (\<lambda>e. case e of Fetch url \<Rightarrow> [url] | _ \<Rightarrow> []) es)"

definition installs :: "event list \<Rightarrow> bytes list" where
  "installs es = concat (map (\<lambda>e. case e of Install bin \<Rightarrow> [bin] | _ \<Rightarrow> []) es)"

definition writes :: "event list \<Rightarrow> (string \<times> string) list" where
  "writes es = concat (map (\<lambda>e. case e of WriteFile path p \<Rightarrow> [(path, p)] | _ \<Rightarrow> []) es)"

definition patches :: "event list \<Rightarrow> nat" where
  "patches es = length (filter (\<lambda>e. e = Patch) es)"

definition written :: "world \<Rightarrow> (string \<times> string) list" where
  "written w = writes (trace w)"

section \<open>Concrete runs\<close>

text \<open>
  A machine on which the program is installed as \<^verbatim>\<open>/opt/app/hello\<close>, with no network
  behind the default requester, a JSON decoder that reads the version \<^verbatim>\<open>1.1.0\<close> and takes
  the body as the digest, a gzip reader that passes its input on, an installer that
  succeeds, and a clock that advances by one nanosecond at each reading.
\<close>

definition world0 :: world where
  "world0 =
     \<lparr>GOOS = ''linux'', GOARCH = ''amd64'',
      osext_Executable = Inr ''/opt/app/hello'',
      filepath_Dir = (\<lambda>p. ''/opt/app''),
      filepath_Join = (\<lambda>a b. a @ ''/'' @ b),
      os_Open = (\<lambda>p. Inr [0x7f, 0x45, 0x4c, 0x46]),
      http_Fetch = (\<lambda>url. Inl (External ''connection refused'')),
      json_Decode = (\<lambda>r i. (None, \<lparr>Version = ''1.1.0'', Sha256 = r\<rparr>)),
      binarydist_Patch = (\<lambda>old p. Inl (External ''corrupt patch'')),
      gzip_NewReader = (\<lambda>r. Inr r),
      io_Copy = (\<lambda>gz. Inr gz),
      update_FromStream = (\<lambda>bin. (None, None)),
      time_Parse = (\<lambda>p. if p = ''soon'' then Inr 3600000000500
                         else Inl (External ''parsing time'')),
      time_Format = (\<lambda>t. if t = 86400000001006 then ''tomorrow'' else ''later''),
      clock = (\<lambda>n. 1000 + int n),
      rand_Int63n = (\<lambda>k n. 5 mod n),
      write_fails = (\<lambda>p. None),
      files = (\<lambda>p. Absent),
      ticks = 0, draws = 0, trace = []\<rparr>"

definition updater0 :: updater where
  "updater0 =
     \<lparr>CurrentVersion = ''1.0.0'', ApiURL = ''http://updates.example.com/'',
      CmdName = ''my app'', BinURL = ''http://updates.example.com/'',
      DiffURL = ''http://updates.example.com/'', Dir = ''update/'',
      ForceCheck = False, Requester = None,
      Info = \<lparr>Version = [], Sha256 = []\<rparr>\<rparr>"

definition cktime0 :: string where
  "cktime0 = ''/opt/app/update/cktime''"

text \<open>The same machine with a given token file, and with a file system that refuses writes.\<close>

definition world_token :: "file_state \<Rightarrow> world" where
  "world_token f = world0\<lparr>files := (\<lambda>p. if p = cktime0 then f else Absent)\<rparr>"

definition world_readonly :: world where
  "world_readonly =
     world0\<lparr>write_fails := (\<lambda>p. Some (External ''read-only file system'', Absent))\<rparr>"

text \<open>
  A Requester that serves a table of bodies and answers 404 for every other URL; the URLs
  of the three endpoints for the command \<^verbatim>\<open>my app\<close> on \<^verbatim>\<open>linux-amd64\<close>; updaters behind
  such a Requester; a machine whose patcher takes the patch as the new binary.
\<close>

definition serve :: "(string \<times> bytes) list \<Rightarrow> requester" where
  "serve tbl url =
     (case map_of tbl url of
        Some body \<Rightarrow> (Some body, None)
      | None \<Rightarrow> (None, Some (External ''404 Not Found'')))"

definition infoUrl0 :: string where
  "infoUrl0 = ''http://updates.example.com/my+app/linux-amd64.json''"

definition patchUrl0 :: string where
  "patchUrl0 = ''http://updates.example.com/my+app/1.0.0/1.1.0/linux-amd64''"

definition binUrl0 :: string where
  "binUrl0 = ''http://updates.example.com/my+app/1.1.0/linux-amd64.gz''"

text \<open>The three bytes of \<^verbatim>\<open>abc\<close> and their SHA-256 digest \<^verbatim>\<open>ba7816bf...f20015ad\<close>.\<close>

definition abc :: bytes where
  "abc = [0x61, 0x62, 0x63]"

definition sha256_of_abc :: bytes where
  "sha256_of_abc =
     [186, 120, 22, 191, 143, 1, 207, 234, 65, 65, 64, 222, 93, 174, 34, 35,
      176, 3, 97, 163, 150, 23, 122, 156, 180, 16, 255, 97, 242, 0, 21, 173]"

definition updater_serving :: "(string \<times> bytes) list \<Rightarrow> updater" where
  "updater_serving tbl = updater0\<lparr>Requester := Some (serve tbl)\<rparr>"

definition world_patching :: world where
  "world_patching = world0\<lparr>binarydist_Patch := (\<lambda>old p. Inr p)\<rparr>"

definition updater_bad_digest :: updater where
  "updater_bad_digest = updater_serving [(infoUrl0, [1, 2, 3])]"

definition updater_current :: updater where
  "updater_current = (updater_serving [(infoUrl0, sha256_of_abc)])\<lparr>CurrentVersion := ''1.1.0''\<rparr>"

definition updater_current_bad_digest :: updater where
  "updater_current_bad_digest = updater_bad_digest\<lparr>CurrentVersion := ''1.1.0''\<rparr>"

definition updater_no_patch :: updater where
  "updater_no_patch = updater_serving [(infoUrl0, sha256_of_abc), (binUrl0, abc)]"

definition updater_bad_patch :: updater where
  "updater_bad_patch = updater_serving [(infoUrl0, sha256_of_abc), (patchUrl0, []), (binUrl0, abc)]"

definition updater_bad_bin :: updater where
  "updater_bad_bin = updater_serving [(infoUrl0, sha256_of_abc), (binUrl0, [])]"

text \<open>
  A decoder for responses that carry a version and no digest: it leaves the digest of the
  \<open>Info\<close> it is given. An updater at version \<^verbatim>\<open>1.1.0\<close> that holds a 32-byte digest from
  before.
\<close>

definition world_no_digest :: world where
  "world_no_digest = world0\<lparr>json_Decode := (\<lambda>r i. (None, i\<lparr>Version := ''1.1.0''\<rparr>))\<rparr>"

definition updater_stale :: updater where
  "updater_stale =
     (updater_serving [(infoUrl0, [])])
       \<lparr>CurrentVersion := ''1.1.0'', Info := \<lparr>Version = ''1.0.9'', Sha256 = sha256_of_abc\<rparr>\<rparr>"

definition info_abc :: info where
  "info_abc = \<lparr>Version = ''1.1.0'', Sha256 = sha256_of_abc\<rparr>"

text \<open>The SHA-256 digest of the empty input, \<^verbatim>\<open>e3b0c442...7852b855\<close>.\<close>

definition sha256_of_empty :: bytes where
  "sha256_of_empty =
     [227, 176, 196, 66, 152, 252, 28, 20, 154, 251, 244, 200, 153, 111, 185, 36,
      39, 174, 65, 228, 100, 155, 147, 76, 164, 149, 153, 27, 120, 82, 184, 85]"

section \<open>Properties of the library functions\<close>

lemma length_round256: "length (round256 s kw) = length s"
  by (induction s kw rule: round256.induct) (simp_all add: Let_def)

lemma length_foldl_round256: "length (foldl round256 s kws) = length s"
  by (induction kws arbitrary: s) (simp_all add: length_round256)

lemma length_block256: "length (block256 hs blk) = length hs"
  by (simp add: block256_def length_foldl_round256)

lemma length_blocks256: "length (blocks256 n hs bs) = length hs"
  by (induction n arbitrary: hs bs) (simp_all add: length_block256)

lemma length_concat_bytes_of32: "length (concat (map bytes_of32 ws)) = 4 * length ws"
  by (induction ws) (simp_all add: bytes_of32_def)

lemma length_sha256_Sum: "length (sha256_Sum m) = 32"
  by (simp add: sha256_Sum_def Let_def length_concat_bytes_of32 length_blocks256 H256_def)

text \<open>The digests of the empty input and of \<^verbatim>\<open>abc\<close> are the published test vectors.\<close>

lemma sha256_Sum_empty: "sha256_Sum [] = sha256_of_empty"
  by code_simp

lemma sha256_Sum_abc: "sha256_Sum abc = sha256_of_abc"
  by code_simp

section \<open>Frame lemmas\<close>

lemma written_logf [simp]: "written (logf l e w) = written w"
  by (simp add: written_def writes_def logf_def)

lemma files_logf [simp]: "files (logf l e w) = files w"
  by (simp add: logf_def)

lemma tokenInFuture_logf:
  "tokenInFuture path (logf l e w)
     = (fst (tokenInFuture path w), logf l e (snd (tokenInFuture path w)))"
  by (simp add: tokenInFuture_def readTime_def ioutil_ReadFile_def time_Now_def logf_def
           split: sum.splits file_state.splits)

lemma tokenInFuture_world:
  "snd (tokenInFuture path w) = w\<lparr>ticks := ticks (snd (tokenInFuture path w))\<rparr>"
  by (simp add: tokenInFuture_def readTime_def ioutil_ReadFile_def time_Now_def
           split: sum.splits file_state.splits)

lemmas fixture_defs = world0_def updater0_def cktime0_def world_token_def world_readonly_def

lemmas schedule_defs = wantUpdate_def getExecRelativeDir_def tokenInFuture_def readTime_def
  ioutil_ReadFile_def time_Now_def logf_def randDuration_def writeTime_def ioutil_WriteFile_def
  os_IsNotExist_def zeroTime_def Hour_def upcktimePath_def

section \<open>Verifier\<close>

text \<open>
  C6. For every byte buffer, the empty one included, and every digest, \<open>verifySha\<close> answers
  true exactly when the SHA-256 hash of the buffer is the digest, byte for byte. Its only
  effect is the log entry of a mismatch. For the empty buffer the one accepted digest is
  \<^verbatim>\<open>e3b0c442...7852b855\<close>, for the bytes of \<^verbatim>\<open>abc\<close> it is \<^verbatim>\<open>ba7816bf...f20015ad\<close>.
\<close>

theorem verifySha_iff:
  "fst (verifySha bin sha) = (sha256_Sum bin = sha)
   \<and> snd (verifySha bin sha)
       = (if sha256_Sum bin = sha then [] else [Log WarnLevel (Msg ''SHA mismatch'')])
   \<and> fst (verifySha [] sha) = (sha = sha256_of_empty)
   \<and> fst (verifySha abc sha) = (sha = sha256_of_abc)"
  by (auto simp: verifySha_def Let_def sha256_Sum_empty sha256_Sum_abc)

text \<open>A digest that is not 32 bytes long is never accepted.\<close>

lemma verifySha_length: "fst (verifySha bin sha) \<Longrightarrow> length sha = 32"
  using length_sha256_Sum [of bin] by (auto simp: verifySha_def Let_def)

section \<open>Check schedule\<close>

text \<open>
  C7. When the current version is the development sentinel \<^verbatim>\<open>dev\<close>, \<open>wantUpdate\<close> answers
  false whatever the token file holds and whatever \<open>ForceCheck\<close> is, and it writes nothing:
  no call of \<^verbatim>\<open>WriteFile\<close> is made and the files are as they were.
\<close>

theorem wantUpdate_dev:
  assumes "CurrentVersion u = ''dev''"
  shows "fst (wantUpdate u w) = False
       \<and> written (snd (wantUpdate u w)) = written w
       \<and> files (snd (wantUpdate u w)) = files w"
  using assms
  by (auto simp: wantUpdate_def getExecRelativeDir_def split: sum.splits prod.splits)

theorem wantUpdate_dev_witness:
  "CurrentVersion (updater0\<lparr>CurrentVersion := ''dev'', ForceCheck := True\<rparr>) = ''dev''
   \<and> fst (wantUpdate (updater0\<lparr>CurrentVersion := ''dev'', ForceCheck := True\<rparr>) world0) = False
   \<and> written (snd (wantUpdate (updater0\<lparr>CurrentVersion := ''dev'', ForceCheck := True\<rparr>) world0)) = []
   \<and> files (snd (wantUpdate (updater0\<lparr>CurrentVersion := ''dev'', ForceCheck := True\<rparr>) world0)) cktime0
       = Absent"
  using wantUpdate_dev [of "updater0\<lparr>CurrentVersion := ''dev'', ForceCheck := True\<rparr>" world0]
  by (simp add: updater0_def world0_def written_def writes_def)

text \<open>
  C1. The three outcomes of \<open>readTime\<close>. When reading the token file reports that it does
  not exist, the result is the zero time and the clock is not consulted, so that the token
  is not in the future of any clock at or after the zero time. When the file cannot be read
  for another reason, or is read and does not parse, the result is the time of the clock
  plus 1000 hours, which is still ahead when the clock is read again within 1000 hours.
  When the content parses, the result is the parsed time. Nothing else is returned.
\<close>

theorem readTime_policy:
  "(\<forall>err. ioutil_ReadFile path w = Inl err \<and> os_IsNotExist err
        \<longrightarrow> readTime path w = (zeroTime, w)
            \<and> (zeroTime \<le> clock w (ticks w) \<longrightarrow> \<not> fst (tokenInFuture path w)))
   \<and> (\<forall>err. ioutil_ReadFile path w = Inl err \<and> \<not> os_IsNotExist err
        \<longrightarrow> fst (readTime path w) = clock w (ticks w) + 1000 * Hour
            \<and> (clock w (Suc (ticks w)) < clock w (ticks w) + 1000 * Hour
                 \<longrightarrow> fst (tokenInFuture path w)))
   \<and> (\<forall>p err. ioutil_ReadFile path w = Inr p \<and> time_Parse w p = Inl err
        \<longrightarrow> fst (readTime path w) = clock w (ticks w) + 1000 * Hour
            \<and> (clock w (Suc (ticks w)) < clock w (ticks w) + 1000 * Hour
                 \<longrightarrow> fst (tokenInFuture path w)))
   \<and> (\<forall>p t. ioutil_ReadFile path w = Inr p \<and> time_Parse w p = Inr t
        \<longrightarrow> readTime path w = (t, w))
   \<and> (fst (readTime path w) = zeroTime
        \<or> fst (readTime path w) = clock w (ticks w) + 1000 * Hour
        \<or> (\<exists>p. ioutil_ReadFile path w = Inr p \<and> time_Parse w p = Inr (fst (readTime path w))))"
  by (auto simp: tokenInFuture_def readTime_def time_Now_def split: sum.splits)

theorem readTime_policy_witness:
  "ioutil_ReadFile cktime0 world0 = Inl ErrNotExist \<and> os_IsNotExist ErrNotExist
   \<and> readTime cktime0 world0 = (zeroTime, world0)
   \<and> \<not> fst (tokenInFuture cktime0 world0)
   \<and> ioutil_ReadFile cktime0 (world_token (Unreadable (External ''permission denied'')))
       = Inl (External ''permission denied'')
   \<and> \<not> os_IsNotExist (External ''permission denied'')
   \<and> fst (readTime cktime0 (world_token (Unreadable (External ''permission denied''))))
       = 1000 + 1000 * Hour
   \<and> fst (tokenInFuture cktime0 (world_token (Unreadable (External ''permission denied''))))
   \<and> ioutil_ReadFile cktime0 (world_token (Content ''garbage'')) = Inr ''garbage''
   \<and> time_Parse (world_token (Content ''garbage'')) ''garbage'' = Inl (External ''parsing time'')
   \<and> fst (readTime cktime0 (world_token (Content ''garbage''))) = 1000 + 1000 * Hour
   \<and> fst (tokenInFuture cktime0 (world_token (Content ''garbage'')))
   \<and> ioutil_ReadFile cktime0 (world_token (Content ''soon'')) = Inr ''soon''
   \<and> time_Parse (world_token (Content ''soon'')) ''soon'' = Inr 3600000000500
   \<and> readTime cktime0 (world_token (Content ''soon'')) = (3600000000500, world_token (Content ''soon''))"
proof -
  let ?u = "world_token (Unreadable (External ''permission denied''))"
  let ?g = "world_token (Content ''garbage'')"
  let ?s = "world_token (Content ''soon'')"
  have a: "ioutil_ReadFile cktime0 world0 = Inl ErrNotExist" "os_IsNotExist ErrNotExist"
    "zeroTime \<le> clock world0 (ticks world0)"
    by (simp_all add: world0_def ioutil_ReadFile_def os_IsNotExist_def zeroTime_def)
  have b: "ioutil_ReadFile cktime0 ?u = Inl (External ''permission denied'')"
    "\<not> os_IsNotExist (External ''permission denied'')"
    "clock ?u (Suc (ticks ?u)) < 1000 + 1000 * Hour"
    "clock ?u (ticks ?u) = 1000"
    by (simp_all add: world_token_def world0_def ioutil_ReadFile_def os_IsNotExist_def Hour_def)
  have c: "ioutil_ReadFile cktime0 ?g = Inr ''garbage''"
    "time_Parse ?g ''garbage'' = Inl (External ''parsing time'')"
    "clock ?g (Suc (ticks ?g)) < 1000 + 1000 * Hour"
    "clock ?g (ticks ?g) = 1000"
    by (simp_all add: world_token_def world0_def ioutil_ReadFile_def Hour_def)
  have d: "ioutil_ReadFile cktime0 ?s = Inr ''soon''"
    "time_Parse ?s ''soon'' = Inr 3600000000500"
    by (simp_all add: world_token_def world0_def ioutil_ReadFile_def)
  show ?thesis
    using readTime_policy [of cktime0 world0] readTime_policy [of cktime0 ?u]
      readTime_policy [of cktime0 ?g] readTime_policy [of cktime0 ?s]
    by (simp add: a b c d)
qed

text \<open>
  C8, as the code has it. With \<open>ForceCheck\<close> unset, a token file that parses to a time
  strictly after the clock makes \<open>wantUpdate\<close> answer false; no call of \<^verbatim>\<open>WriteFile\<close>
  is made and the files are as they were. This holds for every such time, within 48 hours
  of the clock or beyond.
\<close>

theorem wantUpdate_future_token:
  assumes "\<not> ForceCheck u"
    and "osext_Executable w = Inr exe"
    and "files w (filepath_Join w (filepath_Dir w exe) (Dir u @ upcktimePath)) = Content p"
    and "time_Parse w p = Inr t"
    and "clock w (ticks w) < t"
  shows "fst (wantUpdate u w) = False
       \<and> written (snd (wantUpdate u w)) = written w
       \<and> files (snd (wantUpdate u w)) = files w"
  using assms
  by (simp add: wantUpdate_def getExecRelativeDir_def tokenInFuture_def readTime_def
        ioutil_ReadFile_def time_Now_def logf_def written_def writes_def)

theorem wantUpdate_future_token_witness:
  "\<not> ForceCheck updater0
   \<and> osext_Executable (world_token (Content ''soon'')) = Inr ''/opt/app/hello''
   \<and> files (world_token (Content ''soon'')) cktime0 = Content ''soon''
   \<and> time_Parse (world_token (Content ''soon'')) ''soon'' = Inr 3600000000500
   \<and> clock (world_token (Content ''soon'')) (ticks (world_token (Content ''soon''))) < 3600000000500
   \<and> fst (wantUpdate updater0 (world_token (Content ''soon''))) = False
   \<and> written (snd (wantUpdate updater0 (world_token (Content ''soon'')))) = []
   \<and> files (snd (wantUpdate updater0 (world_token (Content ''soon'')))) cktime0 = Content ''soon''"
  using wantUpdate_future_token [of updater0 "world_token (Content ''soon'')" "''/opt/app/hello''"
          "''soon''" 3600000000500]
  by (simp add: fixture_defs upcktimePath_def written_def writes_def)

text \<open>
  With \<open>ForceCheck\<close> set the stored token is not read: a token 59 minutes and some seconds
  ahead of the clock does not keep \<open>wantUpdate\<close> from rewriting the file and answering true.
\<close>

theorem wantUpdate_force_counterexample:
  "files (world_token (Content ''soon'')) cktime0 = Content ''soon''
   \<and> time_Parse (world_token (Content ''soon'')) ''soon'' = Inr 3600000000500
   \<and> clock (world_token (Content ''soon'')) (ticks (world_token (Content ''soon''))) < 3600000000500
   \<and> 3600000000500 < clock (world_token (Content ''soon'')) (ticks (world_token (Content ''soon''))) + 48 * Hour
   \<and> fst (wantUpdate (updater0\<lparr>ForceCheck := True\<rparr>) (world_token (Content ''soon''))) = True
   \<and> files (snd (wantUpdate (updater0\<lparr>ForceCheck := True\<rparr>) (world_token (Content ''soon'')))) cktime0
       = Content ''later''"
  by (simp add: fixture_defs schedule_defs Let_def)

text \<open>
  C9. When a check is due (the path of the token file is found, the version is not
  \<^verbatim>\<open>dev\<close>, and \<open>ForceCheck\<close> is set or the token is not in the future), \<open>wantUpdate\<close>
  makes exactly one call of \<^verbatim>\<open>WriteFile\<close>, on the token file, with the text of the
  time \<open>now + 24h + r\<close>, where \<open>now\<close> is the clock read after the draw and \<open>r\<close> is
  the draw of \<^verbatim>\<open>rand.Int63n(24h)\<close>. With the draw in its range \<open>[0, 24h)\<close> the deadline
  lies in \<open>[now + 24h, now + 48h)\<close>. The answer is true exactly when the write
  succeeded, and then the file holds the new deadline. How the draws are distributed is
  the business of \<^verbatim>\<open>math/rand\<close>.
\<close>

theorem wantUpdate_due:
  assumes exe: "osext_Executable w = Inr exe"
    and path: "path = filepath_Join w (filepath_Dir w exe) (Dir u @ upcktimePath)"
    and notdev: "CurrentVersion u \<noteq> ''dev''"
    and due: "ForceCheck u \<or> \<not> fst (tokenInFuture path w)"
    and now: "now = clock w (ticks (if ForceCheck u then w else snd (tokenInFuture path w)))"
    and r: "r = rand_Int63n w (draws w) (24 * Hour)"
    and range: "0 \<le> r \<and> r < 24 * Hour"
  shows "written (snd (wantUpdate u w)) = written w @ [(path, time_Format w (now + (24 * Hour + r)))]
       \<and> now + 24 * Hour \<le> now + (24 * Hour + r) \<and> now + (24 * Hour + r) < now + 48 * Hour
       \<and> fst (wantUpdate u w) = (write_fails w path = None)
       \<and> (write_fails w path = None \<longrightarrow>
            files (snd (wantUpdate u w)) path = Content (time_Format w (now + (24 * Hour + r))))"
proof -
  define w2 where "w2 = (if ForceCheck u then w else snd (tokenInFuture path w))"
  define k where "k = ticks w2"
  have w2: "w2 = w\<lparr>ticks := k\<rparr>"
    using tokenInFuture_world [of path w] by (auto simp: w2_def k_def)
  have nowk: "now = clock w k"
    using now by (simp add: k_def w2_def)
  let ?l = "logf DebugLevel (Msg ''Directory to store selfupdate state'')"
  have wu: "wantUpdate u w =
      (case randDuration (24 * Hour) (?l w2) of (r, w3) \<Rightarrow>
         (case time_Now w3 of (now, w4) \<Rightarrow> writeTime path (now + (24 * Hour + r)) w4))"
  proof (cases "ForceCheck u")
    case True
    then show ?thesis
      using exe path notdev by (simp add: wantUpdate_def getExecRelativeDir_def w2_def)
  next
    case False
    then have "tokenInFuture path (?l w) = (False, ?l w2)"
      using due by (simp add: w2_def tokenInFuture_logf)
    then show ?thesis
      using False exe path notdev by (simp add: wantUpdate_def getExecRelativeDir_def)
  qed
  have run: "wantUpdate u w =
      writeTime path (now + (24 * Hour + r)) (w\<lparr>trace := trace w @ [Log DebugLevel (Msg ''Directory to store selfupdate state'')],
         draws := Suc (draws w), ticks := Suc k\<rparr>)"
    unfolding wu by (simp add: w2 nowk r randDuration_def time_Now_def logf_def)
  show ?thesis
    unfolding run using range
    by (simp add: writeTime_def ioutil_WriteFile_def written_def writes_def Let_def
          split: option.splits prod.splits)
qed

theorem wantUpdate_due_witness:
  "osext_Executable world0 = Inr ''/opt/app/hello''
   \<and> cktime0 = filepath_Join world0 (filepath_Dir world0 ''/opt/app/hello'') (Dir updater0 @ upcktimePath)
   \<and> CurrentVersion updater0 \<noteq> ''dev''
   \<and> \<not> fst (tokenInFuture cktime0 world0)
   \<and> rand_Int63n world0 (draws world0) (24 * Hour) = 5 \<and> (0::int) \<le> 5 \<and> 5 < 24 * Hour
   \<and> written (snd (wantUpdate updater0 world0)) = [(cktime0, ''tomorrow'')]
   \<and> fst (wantUpdate updater0 world0) = True
   \<and> files (snd (wantUpdate updater0 world0)) cktime0 = Content ''tomorrow''
   \<and> write_fails world_readonly cktime0 \<noteq> None
   \<and> written (snd (wantUpdate updater0 world_readonly)) = [(cktime0, ''tomorrow'')]
   \<and> fst (wantUpdate updater0 world_readonly) = False"
proof -
  have e: "osext_Executable world0 = Inr ''/opt/app/hello''"
    by (simp add: world0_def)
  have p: "cktime0 = filepath_Join world0 (filepath_Dir world0 ''/opt/app/hello'') (Dir updater0 @ upcktimePath)"
    by (simp add: fixture_defs upcktimePath_def)
  have nd: "CurrentVersion updater0 \<noteq> ''dev''"
    by (simp add: updater0_def)
  have tf: "tokenInFuture cktime0 world0 = (False, world0\<lparr>ticks := 1\<rparr>)"
    by (simp add: world0_def tokenInFuture_def readTime_def ioutil_ReadFile_def time_Now_def
          os_IsNotExist_def zeroTime_def)
  have due: "ForceCheck updater0 \<or> \<not> fst (tokenInFuture cktime0 world0)"
    by (simp add: tf)
  have now: "(1001::int) = clock world0
      (ticks (if ForceCheck updater0 then world0 else snd (tokenInFuture cktime0 world0)))"
    by (simp add: tf updater0_def) (simp add: world0_def)
  have r: "(5::int) = rand_Int63n world0 (draws world0) (24 * Hour)"
    by (simp add: world0_def Hour_def)
  have rg: "(0::int) \<le> 5 \<and> 5 < 24 * Hour"
    by (simp add: Hour_def)
  have fmt: "time_Format world0 (1006 + 24 * Hour) = ''tomorrow''"
    by (simp add: world0_def Hour_def)
  have wf: "write_fails world0 cktime0 = None"
    by (simp add: world0_def)
  have wr: "written world0 = []"
    by (simp add: world0_def written_def writes_def)
  have e': "osext_Executable world_readonly = Inr ''/opt/app/hello''"
    by (simp add: world_readonly_def world0_def)
  have p': "cktime0 = filepath_Join world_readonly (filepath_Dir world_readonly ''/opt/app/hello'')
      (Dir updater0 @ upcktimePath)"
    by (simp add: fixture_defs upcktimePath_def)
  have tf': "tokenInFuture cktime0 world_readonly = (False, world_readonly\<lparr>ticks := 1\<rparr>)"
    by (simp add: world_readonly_def world0_def tokenInFuture_def readTime_def ioutil_ReadFile_def
          time_Now_def os_IsNotExist_def zeroTime_def)
  have due': "ForceCheck updater0 \<or> \<not> fst (tokenInFuture cktime0 world_readonly)"
    by (simp add: tf')
  have now': "(1001::int) = clock world_readonly
      (ticks (if ForceCheck updater0 then world_readonly
              else snd (tokenInFuture cktime0 world_readonly)))"
    by (simp add: tf' updater0_def) (simp add: world_readonly_def world0_def)
  have r': "(5::int) = rand_Int63n world_readonly (draws world_readonly) (24 * Hour)"
    by (simp add: world_readonly_def world0_def Hour_def)
  have fmt': "time_Format world_readonly (1006 + 24 * Hour) = ''tomorrow''"
    by (simp add: world_readonly_def world0_def Hour_def)
  have wf': "write_fails world_readonly cktime0 = Some (External ''read-only file system'', Absent)"
    by (simp add: world_readonly_def)
  have wr': "written world_readonly = []"
    by (simp add: world_readonly_def world0_def written_def writes_def)
  show ?thesis
    using wantUpdate_due [OF e p nd due now r rg] wantUpdate_due [OF e' p' nd due' now' r' rg]
      e p nd r rg
    by (simp add: fmt wf wr tf fmt' wf' wr')
qed

section \<open>Fetching\<close>

lemma fetches_simps [simp]:
  "fetches [] = []" "fetches (es @ es') = fetches es @ fetches es'"
  "fetches (Fetch url # es) = url # fetches es" "fetches (Log l e # es) = fetches es"
  "fetches (Patch # es) = fetches es" "fetches (Install bin # es) = fetches es"
  "fetches (WriteFile path p # es) = fetches es"
  by (simp_all add: fetches_def)

lemma installs_simps [simp]:
  "installs [] = []" "installs (es @ es') = installs es @ installs es'"
  "installs (Fetch url # es) = installs es" "installs (Log l e # es) = installs es"
  "installs (Patch # es) = installs es" "installs (Install bin # es) = bin # installs es"
  "installs (WriteFile path p # es) = installs es"
  by (simp_all add: installs_def)

lemma patches_simps [simp]:
  "patches [] = 0" "patches (es @ es') = patches es + patches es'"
  "patches (Fetch url # es) = patches es" "patches (Log l e # es) = patches es"
  "patches (Patch # es) = Suc (patches es)" "patches (Install bin # es) = patches es"
  "patches (WriteFile path p # es) = patches es"
  by (simp_all add: patches_def)

lemma snd_fetch [simp]: "snd (fetch u url w) = [Fetch url]"
  by (simp add: fetch_def split: option.splits prod.splits)

lemma fetch_events: "fetch u url w = (r, ev) \<Longrightarrow> ev = [Fetch url]"
  using snd_fetch [of u url w] by simp

lemma snd_fetchInfo [simp]: "snd (snd (fetchInfo u w)) = [Fetch (infoUrl u w)]"
  by (auto simp: fetchInfo_def Let_def dest: fetch_events
        split: sum.splits prod.splits option.splits)

lemma fetchAndApplyPatch_events:
  "fetches (snd (fetchAndApplyPatch u old w)) = [patchUrl u w]
   \<and> installs (snd (fetchAndApplyPatch u old w)) = []"
  by (auto simp: fetchAndApplyPatch_def Let_def dest: fetch_events
        split: sum.splits prod.splits)

lemma upperhex_nth: "k < 16 \<Longrightarrow> CHR ''/'' \<noteq> upperhex ! k"
  by (simp add: upperhex_def nth_Cons' )

lemma of_char_less_256: "(of_char c :: nat) < 256"
proof -
  have "(of_char c :: nat) mod 256 < 256" by simp
  then show ?thesis by (simp only: of_char_mod_256)
qed

lemma escape_byte_no_slash: "CHR ''/'' \<notin> set (escape_byte c)"
proof (cases "shouldEscape c")
  case True
  have "(of_char c :: nat) div 16 < 16"
    using of_char_less_256 [of c] by arith
  moreover have "(of_char c :: nat) mod 16 < 16"
    by simp
  ultimately show ?thesis
    using True by (simp add: escape_byte_def upperhex_nth)
next
  case False
  have "shouldEscape (CHR ''/'')"
    by (simp add: shouldEscape_def)
  with False have "c \<noteq> CHR ''/''"
    by auto
  with False show ?thesis
    by (simp add: escape_byte_def)
qed

lemma QueryEscape_no_slash: "CHR ''/'' \<notin> set (QueryEscape s)"
  by (induction s) (simp_all add: QueryEscape_def escape_byte_no_slash)

lemmas run_defs = updater_serving_def serve_def infoUrl0_def patchUrl0_def binUrl0_def
  updater0_def world0_def world_patching_def infoUrl_def patchUrl_def binUrl_def plat_def
  QueryEscape_def escape_byte_def shouldEscape_def upperhex_def fetch_def
  updater_bad_digest_def updater_current_def updater_current_bad_digest_def
  updater_no_patch_def updater_bad_patch_def updater_bad_bin_def info_abc_def

lemma length_sha256_of_abc: "length sha256_of_abc = 32"
  by (simp add: sha256_of_abc_def)

lemma sha256_empty_neq_abc: "sha256_Sum [] \<noteq> sha256_of_abc"
  by (simp add: sha256_Sum_empty sha256_of_empty_def sha256_of_abc_def)

text \<open>
  In \<^verbatim>\<open>selfupdate/selfupdate.go\<close> the patch fetch asks for one URL: the diff base followed
  by the escaped command name, current version, target version and platform, in that
  order, with a slash between them. No escaped segment contains a slash.
\<close>

lemma fetchAndApplyPatch_requests:
  "fetches (snd (fetchAndApplyPatch u old w))
     = [DiffURL u @ QueryEscape (CmdName u) @ ''/'' @ QueryEscape (CurrentVersion u) @ ''/''
        @ QueryEscape (Version (Info u)) @ ''/'' @ QueryEscape (GOOS w @ ''-'' @ GOARCH w)]
   \<and> CHR ''/'' \<notin> set (QueryEscape (CmdName u))
   \<and> CHR ''/'' \<notin> set (QueryEscape (CurrentVersion u))
   \<and> CHR ''/'' \<notin> set (QueryEscape (Version (Info u)))
   \<and> CHR ''/'' \<notin> set (QueryEscape (GOOS w @ ''-'' @ GOARCH w))"
  by (simp add: fetchAndApplyPatch_events patchUrl_def plat_def QueryEscape_no_slash)

lemma fetchAndApplyPatch_part000_events:
  "fetches (snd (fetchAndApplyPatch_part000 u old w)) = [patchUrl_part000 u w]"
  by (auto simp: fetchAndApplyPatch_part000_def Let_def dest: fetch_events
        split: sum.splits prod.splits)

lemma patchUrl_part000_differs: "patchUrl_part000 u w \<noteq> patchUrl u w"
  by (simp add: patchUrl_part000_def patchUrl_def)

text \<open>
  C2. The unnamed copy of the file does not request the URL of the claim. For the command
  \<^verbatim>\<open>my app\<close> at version \<^verbatim>\<open>1.0.0\<close> with target \<^verbatim>\<open>1.1.0\<close> on \<^verbatim>\<open>linux-amd64\<close> it asks for
  \<^verbatim>\<open>.../my+app/1.0.0/1.1.0%!(EXTRA string=linux-amd64)\<close>, where the named file asks for
  \<^verbatim>\<open>.../my+app/1.0.0/1.1.0/linux-amd64\<close>.
\<close>

theorem fetchAndApplyPatch_part000_requests:
  "fetches (snd (fetchAndApplyPatch_part000 (updater0\<lparr>Info := info_abc\<rparr>) [] world0))
     = [''http://updates.example.com/my+app/1.0.0/1.1.0%!(EXTRA string=linux-amd64)'']
   \<and> fetches (snd (fetchAndApplyPatch (updater0\<lparr>Info := info_abc\<rparr>) [] world0))
     = [''http://updates.example.com/my+app/1.0.0/1.1.0/linux-amd64'']"
  by (simp add: fetchAndApplyPatch_part000_events fetchAndApplyPatch_events
        patchUrl_part000_def run_defs)

lemma fetchInfo_collapse:
  "fetchInfo u w = (fst (fetchInfo u w), fst (snd (fetchInfo u w)), [Fetch (infoUrl u w)])"
  by (metis prod.collapse snd_fetchInfo)

lemma fetchInfo_decoded:
  assumes "fst (fetch u (infoUrl u w) w) = Inr r" and "json_Decode w r (Info u) = (derr, i)"
  shows "fst (snd (fetchInfo u w)) = u\<lparr>Info := i\<rparr>"
    and "fst (fetchInfo u w) =
           (case derr of
              Some err \<Rightarrow> Some (Wrapf err ''Couldn't decode JSON (%!s(MISSING))'')
            | None \<Rightarrow> if length (Sha256 i) \<noteq> 32
                        then Some (Errorf ''Bad cmd hash in JSON info'') else None)"
  using assms
  by (auto simp: fetchInfo_def Let_def sha256_Size_def split: sum.splits prod.splits option.splits)

text \<open>
  C10. \<open>fetchInfo\<close> is not atomic on error. When the metadata is fetched and decodes
  without error but its \<open>Sha256\<close> is not 32 bytes long, \<open>fetchInfo\<close> returns the error
  \<^verbatim>\<open>Bad cmd hash in JSON info\<close> and the updater is left with the decoded \<open>Info\<close>, version
  and digest, in place of the one it had.
\<close>

theorem fetchInfo_bad_hash:
  assumes "fst (fetch u (infoUrl u w) w) = Inr r"
    and "json_Decode w r (Info u) = (None, i)"
    and "length (Sha256 i) \<noteq> 32"
  shows "fst (fetchInfo u w) = Some (Errorf ''Bad cmd hash in JSON info'')
       \<and> fst (snd (fetchInfo u w)) = u\<lparr>Info := i\<rparr>"
  using fetchInfo_decoded [OF assms(1,2)] assms(3) by simp

theorem fetchInfo_bad_hash_witness:
  "fst (fetch updater_bad_digest (infoUrl updater_bad_digest world0) world0) = Inr [1, 2, 3]
   \<and> json_Decode world0 [1, 2, 3] (Info updater_bad_digest)
       = (None, \<lparr>Version = ''1.1.0'', Sha256 = [1, 2, 3]\<rparr>)
   \<and> length (Sha256 \<lparr>Version = ''1.1.0'', Sha256 = [1, 2, 3 :: 8 word]\<rparr>) \<noteq> 32
   \<and> Info updater_bad_digest = \<lparr>Version = [], Sha256 = []\<rparr>
   \<and> fst (fetchInfo updater_bad_digest world0) = Some (Errorf ''Bad cmd hash in JSON info'')
   \<and> Info (fst (snd (fetchInfo updater_bad_digest world0)))
       = \<lparr>Version = ''1.1.0'', Sha256 = [1, 2, 3]\<rparr>"
proof -
  let ?u = updater_bad_digest
  have a: "fst (fetch ?u (infoUrl ?u world0) world0) = Inr [1, 2, 3]"
    by (simp add: run_defs)
  have b: "json_Decode world0 [1, 2, 3] (Info ?u) = (None, \<lparr>Version = ''1.1.0'', Sha256 = [1, 2, 3]\<rparr>)"
    by (simp add: world0_def)
  have c: "length (Sha256 \<lparr>Version = ''1.1.0'', Sha256 = [1, 2, 3 :: 8 word]\<rparr>) \<noteq> 32"
    by simp
  have d: "Info ?u = \<lparr>Version = [], Sha256 = []\<rparr>"
    by (simp add: run_defs)
  show ?thesis
    using fetchInfo_bad_hash [OF a b c] a b c d by simp
qed

section \<open>Orchestrator\<close>

lemma fst_fetchAndVerifyPatch:
  "fst (fetchAndVerifyPatch u old w) =
     (case fst (fetchAndApplyPatch u old w) of
        Inl err \<Rightarrow> Inl (Wrapf err ''Couldn't fetch and apply patch'')
      | Inr bin \<Rightarrow> if sha256_Sum bin = Sha256 (Info u) then Inr bin else Inl ErrHashMismatch)"
  by (auto simp: fetchAndVerifyPatch_def verifySha_def Let_def split: sum.splits prod.splits)

lemma fetchAndVerifyPatch_events:
  "fetches (snd (fetchAndVerifyPatch u old w)) = [patchUrl u w]
   \<and> installs (snd (fetchAndVerifyPatch u old w)) = []"
  using fetchAndApplyPatch_events [of u old w]
  by (auto simp: fetchAndVerifyPatch_def verifySha_def Let_def split: sum.splits prod.splits)

lemma fetchBin_events:
  "fetches (snd (fetchBin u w)) = [binUrl u w] \<and> installs (snd (fetchBin u w)) = []"
  by (auto simp: fetchBin_def Let_def dest: fetch_events split: sum.splits prod.splits)

lemma fst_fetchAndVerifyFullBin:
  "fst (fetchAndVerifyFullBin u w) =
     (case fst (fetchBin u w) of
        Inl err \<Rightarrow> Inl (Wrapf err ''Errored fetching full binary'')
      | Inr bin \<Rightarrow> if sha256_Sum bin = Sha256 (Info u) then Inr bin
                   else Inl (Wrapf ErrHashMismatch ''Hash mismatch''))"
  by (auto simp: fetchAndVerifyFullBin_def verifySha_def Let_def split: sum.splits prod.splits)

lemma fetchAndVerifyFullBin_events:
  "fetches (snd (fetchAndVerifyFullBin u w)) = [binUrl u w]
   \<and> installs (snd (fetchAndVerifyFullBin u w)) = []"
  using fetchBin_events [of u w]
  by (auto simp: fetchAndVerifyFullBin_def verifySha_def Let_def split: sum.splits prod.splits)

lemma obtainBin_fallback:
  assumes "fst (fetchAndVerifyPatch u old w) = Inl e"
  shows "fst (obtainBin u old w) = fst (fetchAndVerifyFullBin u w)"
    and "fetches (snd (obtainBin u old w)) = [patchUrl u w, binUrl u w]"
    and "installs (snd (obtainBin u old w)) = []"
  using assms fetchAndVerifyPatch_events [of u old w] fetchAndVerifyFullBin_events [of u w]
  by (auto simp: obtainBin_def Let_def split: sum.splits prod.splits)

lemma installBin_events: "snd (installBin bin w) = [Install bin]"
  by (simp add: installBin_def split: prod.splits option.splits)

lemma installBin_eventsD: "installBin bin w = (r, ev) \<Longrightarrow> ev = [Install bin]"
  using installBin_events [of bin w] by simp

lemma update_reaches_compare:
  assumes "osext_Executable w = Inr path" and "os_Open w path = Inr old"
    and "fst (fetchInfo u w) = None" and "u1 = fst (snd (fetchInfo u w))"
  shows "update u w =
     (if Version (Info u1) = CurrentVersion u1
      then (None, u1, [Fetch (infoUrl u w), Log DebugLevel (Msg ''Already at latest version :)'')])
      else (case obtainBin u1 old w of
              (Inl err, ev1) \<Rightarrow> (Some err, u1, Fetch (infoUrl u w) # ev1)
            | (Inr bin, ev1) \<Rightarrow>
                (fst (installBin bin w), u1, Fetch (infoUrl u w) # ev1 @ [Install bin])))"
proof -
  have fi: "fetchInfo u w = (None, u1, [Fetch (infoUrl u w)])"
    using assms(3,4) fetchInfo_collapse [of u w] by simp
  show ?thesis
    using assms(1,2)
    by (auto simp: update_def fi dest: installBin_eventsD split: sum.splits prod.splits)
qed

lemma patch_failure:
  assumes "(\<exists>e. fst (fetchAndApplyPatch u old w) = Inl e)
         \<or> (\<exists>b. fst (fetchAndApplyPatch u old w) = Inr b \<and> sha256_Sum b \<noteq> Sha256 (Info u))"
  shows "\<exists>e. fst (fetchAndVerifyPatch u old w) = Inl e"
  using assms by (auto simp: fst_fetchAndVerifyPatch)

lemma update_fallback:
  assumes "osext_Executable w = Inr path" and "os_Open w path = Inr old"
    and "fst (fetchInfo u w) = None" and "u1 = fst (snd (fetchInfo u w))"
    and "Version (Info u1) \<noteq> CurrentVersion u1"
    and "fst (fetchAndVerifyPatch u1 old w) = Inl e"
  shows "fst (update u w) =
           (case fst (fetchAndVerifyFullBin u1 w) of
              Inl err \<Rightarrow> Some err | Inr bin \<Rightarrow> fst (installBin bin w))"
    and "fetches (snd (snd (update u w))) = [infoUrl u w, patchUrl u1 w, binUrl u1 w]"
    and "installs (snd (snd (update u w))) =
           (case fst (fetchAndVerifyFullBin u1 w) of Inl err \<Rightarrow> [] | Inr bin \<Rightarrow> [bin])"
proof -
  obtain r ev where ob: "obtainBin u1 old w = (r, ev)"
    by (cases "obtainBin u1 old w")
  have r: "r = fst (fetchAndVerifyFullBin u1 w)"
    and f: "fetches ev = [patchUrl u1 w, binUrl u1 w]" and i: "installs ev = []"
    using obtainBin_fallback [OF assms(6)] ob by simp_all
  have up: "update u w =
      (case r of Inl err \<Rightarrow> (Some err, u1, Fetch (infoUrl u w) # ev)
       | Inr bin \<Rightarrow> (fst (installBin bin w), u1, Fetch (infoUrl u w) # ev @ [Install bin]))"
    using update_reaches_compare [OF assms(1-4)] assms(5) ob
    by (simp split: sum.splits)
  show "fst (update u w) =
           (case fst (fetchAndVerifyFullBin u1 w) of
              Inl err \<Rightarrow> Some err | Inr bin \<Rightarrow> fst (installBin bin w))"
    using r by (simp add: up split: sum.splits)
  show "fetches (snd (snd (update u w))) = [infoUrl u w, patchUrl u1 w, binUrl u1 w]"
    using f by (simp add: up split: sum.splits)
  show "installs (snd (snd (update u w))) =
           (case fst (fetchAndVerifyFullBin u1 w) of Inl err \<Rightarrow> [] | Inr bin \<Rightarrow> [bin])"
    using r i by (simp add: up split: sum.splits)
qed

text \<open>
  C3, as the code has it. When the executable is found and opened, the metadata is fetched
  and decodes without error, and the \<open>Version\<close> that decoding leaves in \<open>Info\<close> equals
  \<open>CurrentVersion\<close>, \<open>update\<close> fetches the metadata and nothing else, applies no patch and
  installs nothing, and leaves the updater with that \<open>Info\<close>. It returns nil exactly when the
  \<open>Sha256\<close> that decoding leaves in \<open>Info\<close> is 32 bytes long: the digest of the response, or
  the one held before when the response has none. Otherwise it returns the error
  \<^verbatim>\<open>Bad cmd hash in JSON info\<close> of \<open>fetchInfo\<close>, wrapped with
  \<^verbatim>\<open>Couldn't properly fetch JSON information for updates\<close>.
\<close>

theorem update_same_version:
  assumes "osext_Executable w = Inr path" and "os_Open w path = Inr old"
    and "fst (fetch u (infoUrl u w) w) = Inr r"
    and "json_Decode w r (Info u) = (None, i)"
    and "Version i = CurrentVersion u"
  shows "fst (update u w)
           = (if length (Sha256 i) = 32 then None
              else Some (Wrapf (Errorf ''Bad cmd hash in JSON info'')
                           ''Couldn't properly fetch JSON information for updates''))
       \<and> fst (snd (update u w)) = u\<lparr>Info := i\<rparr>
       \<and> fetches (snd (snd (update u w))) = [infoUrl u w]
       \<and> installs (snd (snd (update u w))) = []
       \<and> patches (snd (snd (update u w))) = 0"
proof (cases "length (Sha256 i) = 32")
  case True
  have fi: "fst (fetchInfo u w) = None" and u1: "u\<lparr>Info := i\<rparr> = fst (snd (fetchInfo u w))"
    using fetchInfo_decoded [OF assms(3,4)] True by simp_all
  show ?thesis
    using update_reaches_compare [OF assms(1,2) fi u1] assms(5) True by simp
next
  case False
  have fi: "fetchInfo u w = (Some (Errorf ''Bad cmd hash in JSON info''), u\<lparr>Info := i\<rparr>,
      [Fetch (infoUrl u w)])"
    using fetchInfo_decoded [OF assms(3,4)] False fetchInfo_collapse [of u w] by simp
  show ?thesis
    using assms(1,2) False by (simp add: update_def fi)
qed

text \<open>
  Three runs at version \<^verbatim>\<open>1.1.0\<close>: a response with a digest of 32 bytes, a response with a
  digest of three bytes, and a response without a digest to an updater that holds a
  digest of 32 bytes from before.
\<close>

theorem update_same_version_witness:
  "osext_Executable world0 = Inr ''/opt/app/hello''
   \<and> os_Open world0 ''/opt/app/hello'' = Inr [0x7f, 0x45, 0x4c, 0x46]
   \<and> fst (fetch updater_current (infoUrl updater_current world0) world0) = Inr sha256_of_abc
   \<and> json_Decode world0 sha256_of_abc (Info updater_current) = (None, info_abc)
   \<and> Version info_abc = CurrentVersion updater_current
   \<and> length (Sha256 info_abc) = 32
   \<and> fst (update updater_current world0) = None
   \<and> fst (snd (update updater_current world0)) = updater_current\<lparr>Info := info_abc\<rparr>
   \<and> fetches (snd (snd (update updater_current world0))) = [infoUrl0]
   \<and> installs (snd (snd (update updater_current world0))) = []
   \<and> patches (snd (snd (update updater_current world0))) = 0
   \<and> fst (fetch updater_current_bad_digest (infoUrl updater_current_bad_digest world0) world0)
       = Inr [1, 2, 3]
   \<and> json_Decode world0 [1, 2, 3] (Info updater_current_bad_digest)
       = (None, \<lparr>Version = ''1.1.0'', Sha256 = [1, 2, 3]\<rparr>)
   \<and> fst (update updater_current_bad_digest world0)
       = Some (Wrapf (Errorf ''Bad cmd hash in JSON info'')
                 ''Couldn't properly fetch JSON information for updates'')
   \<and> fetches (snd (snd (update updater_current_bad_digest world0))) = [infoUrl0]
   \<and> installs (snd (snd (update updater_current_bad_digest world0))) = []
   \<and> fst (fetch updater_stale (infoUrl updater_stale world_no_digest) world_no_digest) = Inr []
   \<and> json_Decode world_no_digest [] (Info updater_stale) = (None, info_abc)
   \<and> fst (update updater_stale world_no_digest) = None
   \<and> fetches (snd (snd (update updater_stale world_no_digest))) = [infoUrl0]
   \<and> installs (snd (snd (update updater_stale world_no_digest))) = []"
proof -
  let ?u = updater_current
  let ?old = "[0x7f, 0x45, 0x4c, 0x46] :: bytes"
  have a: "osext_Executable world0 = Inr ''/opt/app/hello''"
    and b: "os_Open world0 ''/opt/app/hello'' = Inr ?old"
    by (simp_all add: world0_def)
  have c: "fst (fetch ?u (infoUrl ?u world0) world0) = Inr sha256_of_abc"
    by (simp add: run_defs)
  have d: "json_Decode world0 sha256_of_abc (Info ?u) = (None, info_abc)"
    by (simp add: world0_def info_abc_def)
  have e: "Version info_abc = CurrentVersion ?u"
    by (simp add: run_defs)
  have f: "length (Sha256 info_abc) = 32"
    by (simp add: info_abc_def length_sha256_of_abc)
  have g: "infoUrl ?u world0 = infoUrl0"
    by (simp add: run_defs)
  let ?v = updater_current_bad_digest
  let ?j = "\<lparr>Version = ''1.1.0'', Sha256 = [1, 2, 3 :: 8 word]\<rparr>"
  have c2: "fst (fetch ?v (infoUrl ?v world0) world0) = Inr [1, 2, 3]"
    by (simp add: run_defs)
  have d2: "json_Decode world0 [1, 2, 3] (Info ?v) = (None, ?j)"
    by (simp add: world0_def)
  have e2: "Version ?j = CurrentVersion ?v"
    by (simp add: run_defs)
  have f2: "length (Sha256 ?j) \<noteq> 32"
    by simp
  have g2: "infoUrl ?v world0 = infoUrl0"
    by (simp add: run_defs)
  let ?s = updater_stale
  have a3: "osext_Executable world_no_digest = Inr ''/opt/app/hello''"
    and b3: "os_Open world_no_digest ''/opt/app/hello'' = Inr ?old"
    by (simp_all add: world_no_digest_def world0_def)
  have c3: "fst (fetch ?s (infoUrl ?s world_no_digest) world_no_digest) = Inr []"
    by (simp add: updater_stale_def world_no_digest_def run_defs)
  have d3: "json_Decode world_no_digest [] (Info ?s) = (None, info_abc)"
    by (simp add: updater_stale_def world_no_digest_def info_abc_def)
  have e3: "Version info_abc = CurrentVersion ?s"
    by (simp add: updater_stale_def info_abc_def)
  have g3: "infoUrl ?s world_no_digest = infoUrl0"
    by (simp add: updater_stale_def world_no_digest_def run_defs)
  show ?thesis
    using update_same_version [OF a b c d e] update_same_version [OF a b c2 d2 e2]
      update_same_version [OF a3 b3 c3 d3 e3] a b c d e f c2 d2 c3 d3
    by (simp add: g g2 g3 f2)
qed

text \<open>
  A metadata response with the current version and a digest of three bytes: \<open>update\<close>
  returns the error of \<open>fetchInfo\<close>, not nil.
\<close>

theorem update_same_version_counterexample:
  "fst (fetch updater_current_bad_digest (infoUrl updater_current_bad_digest world0) world0)
       = Inr [1, 2, 3]
   \<and> json_Decode world0 [1, 2, 3] (Info updater_current_bad_digest)
       = (None, \<lparr>Version = ''1.1.0'', Sha256 = [1, 2, 3]\<rparr>)
   \<and> CurrentVersion updater_current_bad_digest = ''1.1.0''
   \<and> fst (update updater_current_bad_digest world0)
       = Some (Wrapf (Errorf ''Bad cmd hash in JSON info'')
                 ''Couldn't properly fetch JSON information for updates'')"
  by (simp add: run_defs update_def fetchInfo_def sha256_Size_def)

lemma fetchInfo_serving_abc:
  assumes "Requester u = Some (serve tbl)" and "map_of tbl (infoUrl u w) = Some sha256_of_abc"
    and "json_Decode w = json_Decode world0"
  shows "fst (fetchInfo u w) = None" and "fst (snd (fetchInfo u w)) = u\<lparr>Info := info_abc\<rparr>"
proof -
  have a: "fst (fetch u (infoUrl u w) w) = Inr sha256_of_abc"
    using assms(1,2) by (simp add: fetch_def serve_def)
  have b: "json_Decode w sha256_of_abc (Info u) = (None, info_abc)"
    by (simp add: assms(3) world0_def info_abc_def)
  show "fst (fetchInfo u w) = None" and "fst (snd (fetchInfo u w)) = u\<lparr>Info := info_abc\<rparr>"
    using fetchInfo_decoded [OF a b] by (simp_all add: info_abc_def length_sha256_of_abc)
qed

text \<open>
  C4. When \<open>update\<close> reaches the patch path and it fails, because fetching or applying the
  patch gives an error or because the patched bytes do not have the expected digest,
  the full binary is fetched next. If that gives bytes with the expected digest and the
  installer reports no error, \<open>update\<close> returns nil and has handed exactly these bytes to
  the installer.
\<close>

theorem update_patch_fallback:
  assumes "osext_Executable w = Inr path" and "os_Open w path = Inr old"
    and "fst (fetchInfo u w) = None" and "u1 = fst (snd (fetchInfo u w))"
    and "Version (Info u1) \<noteq> CurrentVersion u1"
    and "(\<exists>e. fst (fetchAndApplyPatch u1 old w) = Inl e)
       \<or> (\<exists>b. fst (fetchAndApplyPatch u1 old w) = Inr b \<and> sha256_Sum b \<noteq> Sha256 (Info u1))"
  shows "fetches (snd (snd (update u w))) = [infoUrl u w, patchUrl u1 w, binUrl u1 w]
       \<and> (\<forall>bin. fst (fetchBin u1 w) = Inr bin \<and> sha256_Sum bin = Sha256 (Info u1)
                  \<and> update_FromStream w bin = (None, None)
             \<longrightarrow> fst (update u w) = None \<and> installs (snd (snd (update u w))) = [bin])"
proof -
  obtain e where e: "fst (fetchAndVerifyPatch u1 old w) = Inl e"
    using patch_failure [OF assms(6)] by blast
  note fb = update_fallback [OF assms(1-5) e]
  show ?thesis
    by (auto simp: fb fst_fetchAndVerifyFullBin installBin_def)
qed

theorem update_patch_fallback_witness:
  "osext_Executable world0 = Inr ''/opt/app/hello''
   \<and> os_Open world0 ''/opt/app/hello'' = Inr [0x7f, 0x45, 0x4c, 0x46]
   \<and> fst (fetchInfo updater_no_patch world0) = None
   \<and> fst (snd (fetchInfo updater_no_patch world0)) = updater_no_patch\<lparr>Info := info_abc\<rparr>
   \<and> Version info_abc \<noteq> CurrentVersion updater_no_patch
   \<and> fst (fetchAndApplyPatch (updater_no_patch\<lparr>Info := info_abc\<rparr>) [0x7f, 0x45, 0x4c, 0x46] world0)
       = Inl (Wrapf (External ''404 Not Found'') ''Errored fetching path'')
   \<and> fst (fetchBin (updater_no_patch\<lparr>Info := info_abc\<rparr>) world0) = Inr abc
   \<and> sha256_Sum abc = Sha256 info_abc
   \<and> update_FromStream world0 abc = (None, None)
   \<and> fst (update updater_no_patch world0) = None
   \<and> fetches (snd (snd (update updater_no_patch world0))) = [infoUrl0, patchUrl0, binUrl0]
   \<and> installs (snd (snd (update updater_no_patch world0))) = [abc]
   \<and> fst (fetchAndApplyPatch (updater_bad_patch\<lparr>Info := info_abc\<rparr>) [0x7f, 0x45, 0x4c, 0x46]
            world_patching) = Inr []
   \<and> sha256_Sum [] \<noteq> Sha256 info_abc
   \<and> fst (update updater_bad_patch world_patching) = None
   \<and> fetches (snd (snd (update updater_bad_patch world_patching))) = [infoUrl0, patchUrl0, binUrl0]
   \<and> installs (snd (snd (update updater_bad_patch world_patching))) = [abc]"
proof -
  let ?u = updater_no_patch
  let ?u1 = "updater_no_patch\<lparr>Info := info_abc\<rparr>"
  let ?old = "[0x7f, 0x45, 0x4c, 0x46] :: bytes"
  have a: "osext_Executable world0 = Inr ''/opt/app/hello''"
    and b: "os_Open world0 ''/opt/app/hello'' = Inr ?old"
    by (simp_all add: world0_def)
  have c: "fst (fetchInfo ?u world0) = None" and d: "?u1 = fst (snd (fetchInfo ?u world0))"
    using fetchInfo_serving_abc [of ?u "[(infoUrl0, sha256_of_abc), (binUrl0, abc)]"]
    by (simp_all add: run_defs)
  have e: "Version (Info ?u1) \<noteq> CurrentVersion ?u1"
    by (simp add: run_defs)
  have f: "fst (fetchAndApplyPatch ?u1 ?old world0)
      = Inl (Wrapf (External ''404 Not Found'') ''Errored fetching path'')"
    by (simp add: fetchAndApplyPatch_def Let_def run_defs)
  then have f': "(\<exists>e. fst (fetchAndApplyPatch ?u1 ?old world0) = Inl e)
       \<or> (\<exists>b. fst (fetchAndApplyPatch ?u1 ?old world0) = Inr b \<and> sha256_Sum b \<noteq> Sha256 (Info ?u1))"
    by simp
  have g: "fst (fetchBin ?u1 world0) = Inr abc"
    by (simp add: fetchBin_def Let_def run_defs)
  have h: "sha256_Sum abc = Sha256 (Info ?u1)"
    by (simp add: sha256_Sum_abc info_abc_def)
  have i: "update_FromStream world0 abc = (None, None)"
    by (simp add: world0_def)
  have urls: "infoUrl ?u world0 = infoUrl0" "patchUrl ?u1 world0 = patchUrl0"
    "binUrl ?u1 world0 = binUrl0"
    by (simp_all add: run_defs)
  have j: "Sha256 info_abc = sha256_of_abc" "Version info_abc = ''1.1.0''"
    "CurrentVersion updater_no_patch = ''1.0.0''"
    by (simp_all add: run_defs)
  let ?v = updater_bad_patch
  let ?v1 = "updater_bad_patch\<lparr>Info := info_abc\<rparr>"
  have a2: "osext_Executable world_patching = Inr ''/opt/app/hello''"
    and b2: "os_Open world_patching ''/opt/app/hello'' = Inr ?old"
    by (simp_all add: world_patching_def world0_def)
  have c2: "fst (fetchInfo ?v world_patching) = None"
    and d2: "?v1 = fst (snd (fetchInfo ?v world_patching))"
    using fetchInfo_serving_abc [of ?v "[(infoUrl0, sha256_of_abc), (patchUrl0, []), (binUrl0, abc)]"
        world_patching]
    by (simp_all add: run_defs)
  have e2: "Version (Info ?v1) \<noteq> CurrentVersion ?v1"
    by (simp add: run_defs)
  have f2: "fst (fetchAndApplyPatch ?v1 ?old world_patching) = Inr []"
    by (simp add: fetchAndApplyPatch_def Let_def run_defs)
  have m2: "sha256_Sum [] \<noteq> Sha256 (Info ?v1)"
    by (simp add: info_abc_def sha256_empty_neq_abc)
  have f2': "(\<exists>e. fst (fetchAndApplyPatch ?v1 ?old world_patching) = Inl e)
       \<or> (\<exists>b. fst (fetchAndApplyPatch ?v1 ?old world_patching) = Inr b
               \<and> sha256_Sum b \<noteq> Sha256 (Info ?v1))"
    using f2 m2 by simp
  have g2: "fst (fetchBin ?v1 world_patching) = Inr abc"
    by (simp add: fetchBin_def Let_def run_defs)
  have h2: "sha256_Sum abc = Sha256 (Info ?v1)"
    by (simp add: sha256_Sum_abc info_abc_def)
  have i2: "update_FromStream world_patching abc = (None, None)"
    by (simp add: world_patching_def world0_def)
  have urls2: "infoUrl ?v world_patching = infoUrl0" "patchUrl ?v1 world_patching = patchUrl0"
    "binUrl ?v1 world_patching = binUrl0"
    by (simp_all add: run_defs)
  have m2': "sha256_Sum [] \<noteq> Sha256 info_abc"
    using m2 by simp
  show ?thesis
    using update_patch_fallback [OF a b c d e f'] update_patch_fallback [OF a2 b2 c2 d2 e2 f2']
      a b c d [symmetric] f g h i f2 g2 h2 i2 m2'
    by (simp add: urls urls2 j)
qed

text \<open>
  C5. When the full-binary path is reached and gives bytes whose SHA-256 digest is not the
  expected one, \<open>update\<close> returns \<open>ErrHashMismatch\<close> wrapped with \<^verbatim>\<open>Hash mismatch\<close>, an
  error whose cause is \<open>ErrHashMismatch\<close>, and the installer is not called.
\<close>

theorem update_full_mismatch:
  assumes "osext_Executable w = Inr path" and "os_Open w path = Inr old"
    and "fst (fetchInfo u w) = None" and "u1 = fst (snd (fetchInfo u w))"
    and "Version (Info u1) \<noteq> CurrentVersion u1"
    and "(\<exists>e. fst (fetchAndApplyPatch u1 old w) = Inl e)
       \<or> (\<exists>b. fst (fetchAndApplyPatch u1 old w) = Inr b \<and> sha256_Sum b \<noteq> Sha256 (Info u1))"
    and "fst (fetchBin u1 w) = Inr bin"
    and "sha256_Sum bin \<noteq> Sha256 (Info u1)"
  shows "fst (update u w) = Some (Wrapf ErrHashMismatch ''Hash mismatch'')
       \<and> map_option Cause (fst (update u w)) = Some ErrHashMismatch
       \<and> installs (snd (snd (update u w))) = []"
proof -
  obtain e where e: "fst (fetchAndVerifyPatch u1 old w) = Inl e"
    using patch_failure [OF assms(6)] by blast
  note fb = update_fallback [OF assms(1-5) e]
  show ?thesis
    using assms(7,8) by (simp add: fb fst_fetchAndVerifyFullBin)
qed

theorem update_full_mismatch_witness:
  "osext_Executable world0 = Inr ''/opt/app/hello''
   \<and> os_Open world0 ''/opt/app/hello'' = Inr [0x7f, 0x45, 0x4c, 0x46]
   \<and> fst (fetchInfo updater_bad_bin world0) = None
   \<and> fst (snd (fetchInfo updater_bad_bin world0)) = updater_bad_bin\<lparr>Info := info_abc\<rparr>
   \<and> Version info_abc \<noteq> CurrentVersion updater_bad_bin
   \<and> fst (fetchAndApplyPatch (updater_bad_bin\<lparr>Info := info_abc\<rparr>) [0x7f, 0x45, 0x4c, 0x46] world0)
       = Inl (Wrapf (External ''404 Not Found'') ''Errored fetching path'')
   \<and> fst (fetchBin (updater_bad_bin\<lparr>Info := info_abc\<rparr>) world0) = Inr []
   \<and> sha256_Sum [] \<noteq> Sha256 info_abc
   \<and> fst (update updater_bad_bin world0) = Some (Wrapf ErrHashMismatch ''Hash mismatch'')
   \<and> installs (snd (snd (update updater_bad_bin world0))) = []"
proof -
  let ?u = updater_bad_bin
  let ?u1 = "updater_bad_bin\<lparr>Info := info_abc\<rparr>"
  let ?old = "[0x7f, 0x45, 0x4c, 0x46] :: bytes"
  have a: "osext_Executable world0 = Inr ''/opt/app/hello''"
    and b: "os_Open world0 ''/opt/app/hello'' = Inr ?old"
    by (simp_all add: world0_def)
  have c: "fst (fetchInfo ?u world0) = None" and d: "?u1 = fst (snd (fetchInfo ?u world0))"
    using fetchInfo_serving_abc [of ?u "[(infoUrl0, sha256_of_abc), (binUrl0, [])]" world0]
    by (simp_all add: run_defs)
  have e: "Version (Info ?u1) \<noteq> CurrentVersion ?u1"
    by (simp add: run_defs)
  have f: "fst (fetchAndApplyPatch ?u1 ?old world0)
      = Inl (Wrapf (External ''404 Not Found'') ''Errored fetching path'')"
    by (simp add: fetchAndApplyPatch_def Let_def run_defs)
  then have f': "(\<exists>e. fst (fetchAndApplyPatch ?u1 ?old world0) = Inl e)
       \<or> (\<exists>b. fst (fetchAndApplyPatch ?u1 ?old world0) = Inr b \<and> sha256_Sum b \<noteq> Sha256 (Info ?u1))"
    by simp
  have g: "fst (fetchBin ?u1 world0) = Inr []"
    by (simp add: fetchBin_def Let_def run_defs)
  have h: "sha256_Sum [] \<noteq> Sha256 (Info ?u1)"
    by (simp add: info_abc_def sha256_empty_neq_abc)
  have j: "Version info_abc = ''1.1.0''" "CurrentVersion updater_bad_bin = ''1.0.0''"
    by (simp_all add: run_defs)
  have h': "sha256_Sum [] \<noteq> Sha256 info_abc"
    using h by simp
  show ?thesis
    using update_full_mismatch [OF a b c d e f' g h] a b c d [symmetric] f g h'
    by (simp add: j)
qed

end
